theory Spec2Isabelle
  imports Main
begin

section \<open>lua-json: a shallow embedding of \<open>src/index.js\<close>\<close>

text \<open>
  The module exports \<open>format\<close> (a JavaScript value to Lua source text) and \<open>parse\<close>
  (Lua source text, through the external \<open>luaparse\<close> parser, to a JavaScript value).
  The embedding follows the source function by function and keeps its names.

  Scope of the model.
  \<^item> A JavaScript string is a \<open>string\<close>: a list of 8-bit characters, of any length
    (the limit that an engine puts on the length of a string is not modelled).
  \<^item> A JavaScript number is an integer or \<open>NaN\<close>; fractional and infinite doubles are
    not represented, and \<open>-0\<close> is \<open>0\<close> (the source never tells them apart). Only the
    integers up to \<open>Number.MAX_SAFE_INTEGER\<close> in magnitude are written as text: beyond
    them an integer need not be a double, and the model gives no verdict.
  \<^item> A value is \<open>undefined\<close>, \<open>null\<close>, a boolean, a number, a string, an array or a plain
    object. An object is the list of its own enumerable data properties in JavaScript's
    enumeration order, and its prototype is \<open>Object.prototype\<close>. Functions, symbols,
    accessors and objects of other classes are not represented, so no property of a
    value is callable.
  \<^item> \<open>rec\<close> and \<open>luaAstToJson\<close> work on finite trees. \<open>format\<close> works on the caller's heap,
    in which the value and the options object may share objects; a cyclic value gets
    no verdict.
  \<^item> Every exception of the source is a value: \<open>Inl\<close> of an \<open>error\<close>. The extra outcome
    \<open>Inl Unmodelled\<close> is not an exception: it says that the model gives no verdict for
    this input.
\<close>

subsection \<open>Values\<close>

datatype jsnum = Finite int | NaN

datatype jsval =
    JUndefined
  | JNull
  | JBool bool
  | JNum jsnum
  | JStr string
  | JArr "jsval list"
  | JObj "(string \<times> jsval) list"

datatype error =
    CantFormat string  \<comment> \<open>\<open>throw new Error(`can't format ${typeof value}`)\<close>\<close>
  | CantParse string   \<comment> \<open>\<open>throw new Error(`can't parse ${ast.type}`)\<close>\<close>
  | TypeError          \<comment> \<open>raised by the JavaScript runtime itself\<close>
  | Unmodelled         \<comment> \<open>no exception: the model gives no verdict\<close>

definition bindE :: "error + 'a \<Rightarrow> ('a \<Rightarrow> error + 'b) \<Rightarrow> error + 'b" where
  "bindE m f = (case m of Inl e \<Rightarrow> Inl e | Inr x \<Rightarrow> f x)"

text \<open>The results of \<open>Array.prototype.map\<close> with a callback that may throw: the first
  exception, in element order, leaves the loop.\<close>

fun sequenceE :: "(error + 'a) list \<Rightarrow> error + 'a list" where
  "sequenceE [] = Inr []"
| "sequenceE (Inl e # rs) = Inl e"
| "sequenceE (Inr x # rs) = (case sequenceE rs of Inl e \<Rightarrow> Inl e | Inr xs \<Rightarrow> Inr (x # xs))"

subsection \<open>Characters and strings\<close>

definition backslash :: char where "backslash = CHR 0x5C"
definition squote :: char where "squote = CHR 0x27"
definition dquote :: char where "dquote = CHR 0x22"
definition newline :: char where "newline = CHR 0x0A"

text \<open>\<open>String.prototype.replace\<close> with a global regular expression that is a literal,
  non-empty sequence of characters and a replacement without \<open>$\<close>: matches are found from
  left to right and do not overlap.\<close>

function replace_all :: "string \<Rightarrow> string \<Rightarrow> string \<Rightarrow> string" where
  "replace_all pat rep [] = []"
| "replace_all pat rep (c # cs) =
     (if pat \<noteq> [] \<and> take (length pat) (c # cs) = pat
      then rep @ replace_all pat rep (drop (length pat) (c # cs))
      else c # replace_all pat rep cs)"
  by pat_completeness auto
termination
  by (relation "measure (\<lambda>(pat, rep, s). length s)") auto

text \<open>\<open>Array.prototype.join\<close> on strings.\<close>

fun join :: "string \<Rightarrow> string list \<Rightarrow> string" where
  "join sep [] = []"
| "join sep [x] = x"
| "join sep (x # y # ys) = x @ sep @ join sep (y # ys)"

text \<open>lodash \<open>repeat(string, n)\<close>: the empty string when \<open>n < 1\<close> or
  \<open>n > Number.MAX_SAFE_INTEGER\<close>.\<close>

definition repeat :: "string \<Rightarrow> int \<Rightarrow> string" where
  "repeat s n = (if n < 1 \<or> n > 9007199254740991 then [] else concat (replicate (nat n) s))"

text \<open>\<open>Number.prototype.toString\<close>: decimal digits for an integer up to
  \<open>Number.MAX_SAFE_INTEGER\<close> in magnitude.\<close>

definition digit_char :: "nat \<Rightarrow> char" where
  "digit_char d = char_of (48 + int d)"

fun digits :: "nat \<Rightarrow> string" where
  "digits n = (if n < 10 then [digit_char n] else digits (n div 10) @ [digit_char (n mod 10)])"

declare digits.simps [simp del]

definition num_toString :: "jsnum \<Rightarrow> error + string" where
  "num_toString x =
     (case x of
        NaN \<Rightarrow> Inr ''NaN''
      | Finite n \<Rightarrow>
          (if n < - 9007199254740991 \<or> 9007199254740991 < n then Inl Unmodelled
           else Inr (if n < 0 then CHR ''-'' # digits (nat (- n)) else digits (nat n))))"

subsection \<open>Dynamic type tests, truthiness, property reads\<close>

definition isNull :: "jsval \<Rightarrow> bool" where
  "isNull v = (v = JNull)"

definition isBoolean :: "jsval \<Rightarrow> bool" where
  "isBoolean v = (case v of JBool b \<Rightarrow> True | _ \<Rightarrow> False)"

definition isNumber :: "jsval \<Rightarrow> bool" where
  "isNumber v = (case v of JNum n \<Rightarrow> True | _ \<Rightarrow> False)"

definition isString :: "jsval \<Rightarrow> bool" where
  "isString v = (case v of JStr s \<Rightarrow> True | _ \<Rightarrow> False)"

text \<open>JavaScript's \<open>ToBoolean\<close>, the test of \<open>if (x)\<close>, \<open>x ? a : b\<close>, \<open>x && y\<close> and
  \<open>x || y\<close>.\<close>

definition truthy :: "jsval \<Rightarrow> bool" where
  "truthy v =
     (case v of
        JUndefined \<Rightarrow> False
      | JNull \<Rightarrow> False
      | JBool b \<Rightarrow> b
      | JNum n \<Rightarrow> (case n of NaN \<Rightarrow> False | Finite k \<Rightarrow> k \<noteq> 0)
      | JStr s \<Rightarrow> s \<noteq> []
      | JArr xs \<Rightarrow> True
      | JObj kvs \<Rightarrow> True)"

text \<open>The property reads \<open>.key\<close>, \<open>.value\<close>, \<open>.type\<close> and \<open>.__internal_table_key\<close> of the
  source. On an object the own property answers; no prototype of a value of the model
  has a property of one of these names, so the read gives \<open>undefined\<close> elsewhere; reading
  a property of \<open>null\<close> or \<open>undefined\<close> raises a \<open>TypeError\<close>.\<close>

definition get_prop :: "jsval \<Rightarrow> string \<Rightarrow> error + jsval" where
  "get_prop v name =
     (case v of
        JUndefined \<Rightarrow> Inl TypeError
      | JNull \<Rightarrow> Inl TypeError
      | JObj kvs \<Rightarrow> Inr (case map_of kvs name of None \<Rightarrow> JUndefined | Some x \<Rightarrow> x)
      | _ \<Rightarrow> Inr JUndefined)"

text \<open>
  JavaScript's \<open>ToString\<close>, used by template literals and by property keys. An array
  joins the conversions of its elements with commas, \<open>null\<close> and \<open>undefined\<close> giving the
  empty string. An object is converted by its \<open>toString\<close> method, then by \<open>valueOf\<close>:
  without an own \<open>toString\<close> property that is \<open>Object.prototype.toString\<close>, which gives
  \<open>[object Object]\<close>; an own \<open>toString\<close> property is not callable, \<open>valueOf\<close> (own, hence
  not callable, or inherited, which returns the object) gives no primitive, and the
  conversion raises a \<open>TypeError\<close>.
\<close>

fun to_string :: "jsval \<Rightarrow> error + string" where
  "to_string JUndefined = Inr ''undefined''"
| "to_string JNull = Inr ''null''"
| "to_string (JBool b) = Inr (if b then ''true'' else ''false'')"
| "to_string (JNum n) = num_toString n"
| "to_string (JStr s) = Inr s"
| "to_string (JArr xs) =
     (case sequenceE (map (\<lambda>x. if x = JNull \<or> x = JUndefined then Inr [] else to_string x) xs) of
        Inl err \<Rightarrow> Inl err
      | Inr parts \<Rightarrow> Inr (join '','' parts))"
| "to_string (JObj kvs) =
     (if ''toString'' \<in> set (map fst kvs) then Inl TypeError else Inr ''[object Object]'')"

text \<open>
  lodash \<open>toString\<close>, which \<open>repeat\<close> applies to its first argument: the empty string for
  \<open>null\<close> and \<open>undefined\<close>, otherwise \<open>baseToString\<close>, which returns a string as it is,
  joins the \<open>baseToString\<close> of the elements of an array with commas (here \<open>null\<close> and
  \<open>undefined\<close> give their names), and converts any other value with \<open>value + ''\<close>.
\<close>

fun baseToString :: "jsval \<Rightarrow> error + string" where
  "baseToString (JStr s) = Inr s"
| "baseToString (JArr xs) =
     (case sequenceE (map baseToString xs) of
        Inl err \<Rightarrow> Inl err
      | Inr parts \<Rightarrow> Inr (join '','' parts))"
| "baseToString v = to_string v"

definition lodash_toString :: "jsval \<Rightarrow> error + string" where
  "lodash_toString v = (if v = JNull \<or> v = JUndefined then Inr [] else baseToString v)"

subsection \<open>The serializer: \<open>formatLuaString\<close>, \<open>formatLuaKey\<close>, \<open>format\<close>\<close>

text \<open>
  \<^verbatim>\<open>const formatLuaString = (string, singleQuote) =>
  (singleQuote ? `'${string.replace(/'/g, "\\'")}'` : `"${string.replace(/"/g, '\\"')}"`)\<close>
\<close>

definition formatLuaString :: "string \<Rightarrow> bool \<Rightarrow> string" where
  "formatLuaString s singleQuote =
     (if singleQuote
      then [squote] @ replace_all [squote] [backslash, squote] s @ [squote]
      else [dquote] @ replace_all [dquote] [backslash, dquote] s @ [dquote])"

text \<open>The regular expression \<^verbatim>\<open>/^[a-zA-Z_][a-zA-Z_0-9]*$/\<close> of \<open>formatLuaKey\<close>, as a
  matcher that reads the string from left to right.\<close>

definition in_range :: "char \<Rightarrow> char \<Rightarrow> char \<Rightarrow> bool" where
  "in_range lo hi c = ((of_char lo :: int) \<le> of_char c \<and> (of_char c :: int) \<le> of_char hi)"

definition re_head :: "char \<Rightarrow> bool" where
  "re_head c = (in_range CHR ''a'' CHR ''z'' c \<or> in_range CHR ''A'' CHR ''Z'' c \<or> c = CHR ''_'')"

definition re_tail :: "char \<Rightarrow> bool" where
  "re_tail c = (in_range CHR ''a'' CHR ''z'' c \<or> in_range CHR ''A'' CHR ''Z'' c \<or> c = CHR ''_''
                \<or> in_range CHR ''0'' CHR ''9'' c)"

fun re_star_end :: "string \<Rightarrow> bool" where
  "re_star_end [] = True"
| "re_star_end (c # cs) = (re_tail c \<and> re_star_end cs)"

fun match_key :: "string \<Rightarrow> bool" where
  "match_key [] = False"
| "match_key (c # cs) = (re_head c \<and> re_star_end cs)"

definition formatLuaKey :: "string \<Rightarrow> bool \<Rightarrow> string" where
  "formatLuaKey s singleQuote =
     (if match_key s then s else ''['' @ formatLuaString s singleQuote @ '']'')"

text \<open>
  \<open>FormatOptions\<close>: the three fields the source reads; an absent field is \<open>undefined\<close>.
  The first three statements of \<open>format\<close> compute a normalized value for each field and
  assign it to the field:
  \<^verbatim>\<open>const eol = (options.eol = isString(options.eol) ? options.eol : '\n')
options.singleQuote = isBoolean(options.singleQuote) ? options.singleQuote : true
options.spaces = isNull(options.spaces) || isNumber(options.spaces) || isString(options.spaces)
  ? options.spaces : 2\<close>
  \<open>normalize opts\<close> holds the three values computed from the fields \<open>opts\<close>; it is what the
  options object holds after these statements when every assignment takes effect.
\<close>

record options =
  eol :: jsval
  singleQuote :: jsval
  spaces :: jsval

definition normalize :: "'a options_scheme \<Rightarrow> 'a options_scheme" where
  "normalize opts =
     opts\<lparr> eol := (if isString (eol opts) then eol opts else JStr [newline]),
           singleQuote := (if isBoolean (singleQuote opts) then singleQuote opts else JBool True),
           spaces := (if isNull (spaces opts) \<or> isNumber (spaces opts) \<or> isString (spaces opts)
                      then spaces opts else JNum (Finite 2)) \<rparr>"

text \<open>The local constant \<open>eol\<close> of \<open>format\<close>, the value of the first assignment expression:
  the \<open>eol\<close> field when it is a string, a line feed otherwise.\<close>

definition eol_text :: "'a options_scheme \<Rightarrow> string" where
  "eol_text opts = (case eol opts of JStr s \<Rightarrow> s | _ \<Rightarrow> [newline])"

text \<open>
  \<^verbatim>\<open>isNumber(options.spaces) ? repeat(' ', options.spaces * n) : repeat(options.spaces, n)\<close>
  with \<open>n = i + 1\<close> for \<open>spaces\<close> and \<open>n = i\<close> for \<open>spacesEnd\<close>. The product with \<open>NaN\<close> is
  \<open>NaN\<close>, which \<open>repeat\<close> takes for \<open>0\<close>; \<open>repeat\<close> converts its first argument with lodash
  \<open>toString\<close> before it looks at the count.
\<close>

definition indent :: "jsval \<Rightarrow> nat \<Rightarrow> error + string" where
  "indent sp n =
     (case sp of
        JNum k \<Rightarrow> Inr (case k of Finite m \<Rightarrow> repeat '' '' (m * int n) | NaN \<Rightarrow> [])
      | _ \<Rightarrow> (case lodash_toString sp of Inl err \<Rightarrow> Inl err | Inr s \<Rightarrow> Inr (repeat s (int n))))"

text \<open>
  The inner function \<open>rec(value, i)\<close> of \<open>format\<close>; \<open>opts\<close> holds the fields of the options
  object as \<open>rec\<close> reads them, that is after the first three statements of \<open>format\<close>.
  lodash \<open>isEmpty\<close> of an array or a plain object asks for an element or an own
  enumerable property. In a container the source computes \<open>spaces\<close> and \<open>spacesEnd\<close>
  before it renders the elements. It maps over \<open>keys(value)\<close> and reads \<open>value[key]\<close>:
  that is each property with its own value, since the names of an object are distinct.
  In the indented branch the source builds \<open>res\<close>, rendering every property, before it
  tests \<open>value.type === 'property'\<close>. The template literal of a property entry converts
  the key to a string before it renders \<open>value.value\<close>; that rendering is the one already
  computed for the property \<open>value\<close>, or the rendering of \<open>undefined\<close> when the object has
  no such property.
\<close>

definition property_key :: "(string \<times> jsval) list \<Rightarrow> error + string" where
  "property_key kvs =
     (case map_of kvs ''key'' of
        None \<Rightarrow> Inr ''undefined''
      | Some (JStr s) \<Rightarrow> Inr ([squote] @ s @ [squote])
      | Some k \<Rightarrow> to_string k)"

fun rec :: "'a options_scheme \<Rightarrow> jsval \<Rightarrow> nat \<Rightarrow> error + string" where
  "rec opts JNull i = Inr ''nil''"
| "rec opts (JBool b) i = Inr (if b then ''true'' else ''false'')"
| "rec opts (JNum n) i = num_toString n"
| "rec opts (JStr s) i = Inr (formatLuaString s (truthy (singleQuote opts)))"
| "rec opts (JArr xs) i =
     (if xs = [] then Inr ''{}''
      else if truthy (spaces opts) then
        (case indent (spaces opts) (i + 1) of
           Inl err \<Rightarrow> Inl err
         | Inr sp \<Rightarrow>
        (case indent (spaces opts) i of
           Inl err \<Rightarrow> Inl err
         | Inr spEnd \<Rightarrow>
        (case sequenceE (map (\<lambda>e. rec opts e (i + 1)) xs) of
           Inl err \<Rightarrow> Inl err
         | Inr rs \<Rightarrow>
             Inr (''{'' @ eol_text opts
                  @ join (eol_text opts) (map (\<lambda>r. sp @ r @ '','') rs)
                  @ eol_text opts @ spEnd @ ''}''))))
      else
        (case sequenceE (map (\<lambda>e. rec opts e (i + 1)) xs) of
           Inl err \<Rightarrow> Inl err
         | Inr rs \<Rightarrow> Inr (''{'' @ join [] (map (\<lambda>r. r @ '','') rs) @ ''}'')))"
| "rec opts (JObj kvs) i =
     (if kvs = [] then Inr ''{}''
      else if truthy (spaces opts) then
        (case indent (spaces opts) (i + 1) of
           Inl err \<Rightarrow> Inl err
         | Inr sp \<Rightarrow>
        (case indent (spaces opts) i of
           Inl err \<Rightarrow> Inl err
         | Inr spEnd \<Rightarrow>
        (case sequenceE (map (\<lambda>(k, v). rec opts v (i + 1)) kvs) of
           Inl err \<Rightarrow> Inl err
         | Inr rs \<Rightarrow>
             (if map_of kvs ''type'' = Some (JStr ''property'') then
                (case property_key kvs of
                   Inl err \<Rightarrow> Inl err
                 | Inr key \<Rightarrow>
                (case map_of (zip (map fst kvs) rs) ''value'' of
                   None \<Rightarrow> Inl (CantFormat ''undefined'')
                 | Some r \<Rightarrow> Inr (''['' @ key @ ''] = '' @ r)))
              else
                Inr (''{'' @ eol_text opts
                     @ join (eol_text opts)
                         (map (\<lambda>(k, r). sp @ formatLuaKey k (truthy (singleQuote opts))
                                 @ '' = '' @ r @ '','')
                            (zip (map fst kvs) rs))
                     @ eol_text opts @ spEnd @ ''}'')))))
      else
        (case sequenceE (map (\<lambda>(k, v). rec opts v (i + 1)) kvs) of
           Inl err \<Rightarrow> Inl err
         | Inr rs \<Rightarrow>
             Inr (''{'' @ join [] (map (\<lambda>(k, r). formatLuaKey k (truthy (singleQuote opts))
                                        @ ''='' @ r @ '','')
                                   (zip (map fst kvs) rs))
                  @ ''}'')))"
| "rec opts JUndefined i = Inl (CantFormat ''undefined'')"

text \<open>
  The last statement of \<open>format\<close>:
  \<^verbatim>\<open>return `return${options.spaces ? ' ' : ''}${rec(value)}`\<close>
\<close>

definition render :: "'a options_scheme \<Rightarrow> jsval \<Rightarrow> error + string" where
  "render opts value =
     (case rec opts value 0 of
        Inl err \<Rightarrow> Inl err
      | Inr t \<Rightarrow> Inr (''return'' @ (if truthy (spaces opts) then '' '' else []) @ t))"

text \<open>
  The text that \<open>format(value, options)\<close> returns, or the exception it throws, when the
  value is a tree of its own and the options object is an ordinary one: \<open>Some\<close> of the
  fields of an object on which every assignment takes effect, or \<open>None\<close> for an argument
  that is omitted or falsy (the default parameter and \<open>options || {}\<close> then supply a
  fresh object, which normalizes to the defaults). The function \<open>format\<close> below, on the
  caller's heap, covers the other calls.
\<close>

definition fresh_options :: options where
  "fresh_options = \<lparr> eol = JUndefined, singleQuote = JUndefined, spaces = JUndefined \<rparr>"

definition formatted :: "jsval \<Rightarrow> 'a options_scheme option \<Rightarrow> error + string" where
  "formatted value options =
     (case options of
        None \<Rightarrow> render (normalize fresh_options) value
      | Some opts \<Rightarrow> render (normalize opts) value)"

subsection \<open>\<open>format\<close> on the caller's heap\<close>

text \<open>
  The arguments of \<open>format\<close> are references into the heap of the caller. A heap value is
  a primitive or the address of an array or of a plain object; an object has a flag
  that says whether it is extensible, and each of its properties a flag that says
  whether it is writable (a frozen object is not extensible and has no writable
  property). The module is not in strict mode, so an assignment that cannot take
  effect is dropped silently.
\<close>

datatype hval = HUndefined | HNull | HBool bool | HNum jsnum | HStr string | HRef nat

datatype hobj = HArr "hval list" | HObj bool "(string \<times> bool \<times> hval) list"

type_synonym heap = "(nat \<times> hobj) list"

text \<open>The tree that a heap value denotes; \<open>path\<close> holds the addresses of the containers
  that enclose it. A dangling address or a cycle gets no verdict.\<close>

function unfold :: "heap \<Rightarrow> nat list \<Rightarrow> hval \<Rightarrow> error + jsval" where
  "unfold h path HUndefined = Inr JUndefined"
| "unfold h path HNull = Inr JNull"
| "unfold h path (HBool b) = Inr (JBool b)"
| "unfold h path (HNum n) = Inr (JNum n)"
| "unfold h path (HStr s) = Inr (JStr s)"
| "unfold h path (HRef a) =
     (if a \<in> set path then Inl Unmodelled
      else
        (case map_of h a of
           None \<Rightarrow> Inl Unmodelled
         | Some (HArr vs) \<Rightarrow>
             (case sequenceE (map (unfold h (a # path)) vs) of
                Inl err \<Rightarrow> Inl err
              | Inr xs \<Rightarrow> Inr (JArr xs))
         | Some (HObj ext props) \<Rightarrow>
             (case sequenceE (map (\<lambda>p. unfold h (a # path) (snd (snd p))) props) of
                Inl err \<Rightarrow> Inl err
              | Inr xs \<Rightarrow> Inr (JObj (zip (map fst props) xs)))))"
  by pat_completeness auto
termination
  apply (relation "measure (\<lambda>(h, path, v). card (fst ` set h - set path))")
    apply simp
   apply simp_all
   apply (rule psubset_card_mono; force dest: map_of_SomeD)
  apply (rule psubset_card_mono; force dest: map_of_SomeD)
  done

text \<open>A property read \<open>o.name\<close> and an assignment \<open>o.name = x\<close> on a plain object, for a
  name that is not an array index: the assignment replaces the value of a writable
  property, adds a property at the end of an extensible object that has none of this
  name, and is dropped otherwise.\<close>

definition h_get :: "hobj \<Rightarrow> string \<Rightarrow> hval" where
  "h_get ob name =
     (case ob of
        HObj ext props \<Rightarrow> (case map_of props name of None \<Rightarrow> HUndefined | Some (w, v) \<Rightarrow> v)
      | HArr vs \<Rightarrow> HUndefined)"

definition h_assign :: "string \<Rightarrow> hval \<Rightarrow> hobj \<Rightarrow> hobj" where
  "h_assign name x ob =
     (case ob of
        HObj ext props \<Rightarrow>
          (if name \<in> fst ` set props
           then HObj ext (map (\<lambda>(k, w, v). (k, w, if k = name \<and> w then x else v)) props)
           else if ext then HObj ext (props @ [(name, True, x)])
           else ob)
      | HArr vs \<Rightarrow> ob)"


definition h_truthy :: "hval \<Rightarrow> bool" where
  "h_truthy v =
     (case v of
        HUndefined \<Rightarrow> False
      | HNull \<Rightarrow> False
      | HBool b \<Rightarrow> b
      | HNum n \<Rightarrow> (case n of NaN \<Rightarrow> False | Finite k \<Rightarrow> k \<noteq> 0)
      | HStr s \<Rightarrow> s \<noteq> []
      | HRef a \<Rightarrow> True)"

text \<open>
  \<^verbatim>\<open>const format = (value, options = { eol: '\n', singleQuote: true, spaces: 2 }) => {
  options = options || {}\<close>
  The object that the three assignments work on: the default object for an argument
  that is omitted (\<open>undefined\<close>), a fresh empty object for another falsy argument, the
  caller's object for a reference to a plain object. A truthy primitive has no
  property of the three names and drops every assignment, like an empty object that is
  not extensible. An array as the options argument gets no verdict.
\<close>

definition options_object :: "heap \<Rightarrow> hval \<Rightarrow> hobj option" where
  "options_object h options =
     (case options of
        HRef a \<Rightarrow> (case map_of h a of Some (HObj ext props) \<Rightarrow> Some (HObj ext props) | _ \<Rightarrow> None)
      | HUndefined \<Rightarrow>
          Some (HObj True [(''eol'', True, HStr [newline]), (''singleQuote'', True, HBool True),
                           (''spaces'', True, HNum (Finite 2))])
      | _ \<Rightarrow> Some (HObj (\<not> h_truthy options) []))"

definition store :: "heap \<Rightarrow> hval \<Rightarrow> hobj \<Rightarrow> heap" where
  "store h options ob =
     (case options of
        HRef a \<Rightarrow> map (\<lambda>(b, o'). if b = a then (b, ob) else (b, o')) h
      | _ \<Rightarrow> h)"

definition norm_eol :: "hval \<Rightarrow> hval" where
  "norm_eol v = (case v of HStr s \<Rightarrow> v | _ \<Rightarrow> HStr [newline])"

definition norm_singleQuote :: "hval \<Rightarrow> hval" where
  "norm_singleQuote v = (case v of HBool b \<Rightarrow> v | _ \<Rightarrow> HBool True)"

definition norm_spaces :: "hval \<Rightarrow> hval" where
  "norm_spaces v = (case v of HNull \<Rightarrow> v | HNum n \<Rightarrow> v | HStr s \<Rightarrow> v | _ \<Rightarrow> HNum (Finite 2))"

text \<open>The options object after the three assignments of \<open>format\<close>.\<close>

definition assigned :: "hobj \<Rightarrow> hobj" where
  "assigned ob =
     (let o1 = h_assign ''eol'' (norm_eol (h_get ob ''eol'')) ob;
          o2 = h_assign ''singleQuote'' (norm_singleQuote (h_get o1 ''singleQuote'')) o1
      in h_assign ''spaces'' (norm_spaces (h_get o2 ''spaces'')) o2)"

text \<open>
  \<open>format(value, options)\<close> in the heap \<open>h\<close>: the returned text or the exception, and
  the heap as the call leaves it. The assignments come first, so they are made also
  when the rendering throws. \<open>rec\<close> then reads the local constant \<open>eol\<close> and, from the
  options object as the assignments left it, the fields \<open>singleQuote\<close> and \<open>spaces\<close>; the
  value is read from the heap as the assignments left it.
\<close>

definition format :: "heap \<Rightarrow> hval \<Rightarrow> hval \<Rightarrow> (error + string) \<times> heap" where
  "format h value options =
     (case options_object h options of
        None \<Rightarrow> (Inl Unmodelled, h)
      | Some ob \<Rightarrow>
          (let h' = store h options (assigned ob)
           in (bindE (unfold h' [] value) (\<lambda>tree.
               bindE (unfold h' [] (norm_eol (h_get ob ''eol''))) (\<lambda>e.
               bindE (unfold h' [] (h_get (assigned ob) ''singleQuote'')) (\<lambda>sq.
               bindE (unfold h' [] (h_get (assigned ob) ''spaces'')) (\<lambda>sp.
                 render \<lparr> eol = e, singleQuote = sq, spaces = sp \<rparr> tree)))),
               h')))"

subsection \<open>Objects: property order and \<open>fromPairs\<close>\<close>

text \<open>
  An assignment \<open>object[key] = value\<close> on a plain object. JavaScript enumerates the own
  properties whose names are array indices (canonical decimal numerals below
  \<open>2^32 - 1\<close>) first, in ascending numeric order, and then the other names in the order
  of their creation; assigning to an existing property keeps its place.
\<close>

definition is_digit :: "char \<Rightarrow> bool" where
  "is_digit c = in_range CHR ''0'' CHR ''9'' c"

definition index_val :: "string \<Rightarrow> int" where
  "index_val k = foldl (\<lambda>a c. 10 * a + (of_char c - 48)) 0 k"

definition is_index :: "string \<Rightarrow> bool" where
  "is_index k = (k \<noteq> [] \<and> list_all is_digit k \<and> (k = ''0'' \<or> hd k \<noteq> CHR ''0'')
                 \<and> index_val k < 4294967295)"

fun obj_insert :: "string \<Rightarrow> jsval \<Rightarrow> (string \<times> jsval) list \<Rightarrow> (string \<times> jsval) list" where
  "obj_insert k v [] = [(k, v)]"
| "obj_insert k v ((k', v') # kvs) =
     (if k = k' then (k, v) # kvs
      else if is_index k \<and> (\<not> is_index k' \<or> index_val k < index_val k')
        then (k, v) # (k', v') # kvs
      else (k', v') # obj_insert k v kvs)"

text \<open>
  lodash \<open>fromPairs\<close>: \<open>result[pair[0]] = pair[1]\<close> for every pair in turn, from the
  empty object; the key is converted to a property name, which can raise. The name
  \<open>__proto__\<close> is an accessor of \<open>Object.prototype\<close>: what the assignment does then
  (nothing, a change of the prototype of \<open>result\<close>, or an own property) depends on the
  value and on the version of lodash, and gets no verdict.
\<close>

fun assign_pairs ::
  "(string \<times> jsval) list \<Rightarrow> (jsval \<times> jsval) list \<Rightarrow> error + (string \<times> jsval) list" where
  "assign_pairs object [] = Inr object"
| "assign_pairs object ((k, v) # pairs) =
     (case to_string k of
        Inl err \<Rightarrow> Inl err
      | Inr name \<Rightarrow>
          (if name = ''__proto__'' then Inl Unmodelled
           else assign_pairs (obj_insert name v object) pairs))"

definition fromPairs :: "(jsval \<times> jsval) list \<Rightarrow> error + (string \<times> jsval) list" where
  "fromPairs pairs = assign_pairs [] pairs"

subsection \<open>The deserializer: \<open>escape\<close>, \<open>luaAstToJson\<close>, \<open>parse\<close>\<close>

text \<open>
  \<^verbatim>\<open>const escape = value => value && value.replace
  ? value
    .replace(/\\\\/gm, '\\\\\\\\')
    .replace(/\\r/gm, '\\\\r')
    .replace(/\\n/gm, '\\\\n')
    .replace(/\n/gm, '\\n')
  : value;\<close>
  The first regular expression matches two consecutive backslashes and its replacement
  is four; the second and third match a backslash followed by \<open>r\<close> or by \<open>n\<close> and put a
  second backslash in front; the fourth matches a line feed and its replacement is a
  backslash followed by \<open>n\<close>. The test \<open>value && value.replace\<close> holds of a non-empty
  string (\<open>String.prototype.replace\<close>) and of an object with a truthy own property
  \<open>replace\<close>; that property is not callable, so the call raises a \<open>TypeError\<close>. No other
  prototype of a value of the model has a \<open>replace\<close>. The empty string is falsy and
  returned as it is, which is also what the four replacements make of it.
\<close>

definition escape_string :: "string \<Rightarrow> string" where
  "escape_string s =
     replace_all [newline] [backslash, CHR ''n'']
       (replace_all [backslash, CHR ''n''] [backslash, backslash, CHR ''n'']
         (replace_all [backslash, CHR ''r''] [backslash, backslash, CHR ''r'']
           (replace_all [backslash, backslash] [backslash, backslash, backslash, backslash] s)))"

definition escape :: "jsval \<Rightarrow> error + jsval" where
  "escape value =
     (case value of
        JStr s \<Rightarrow> Inr (JStr (escape_string s))
      | JObj kvs \<Rightarrow>
          (if truthy (case map_of kvs ''replace'' of None \<Rightarrow> JUndefined | Some x \<Rightarrow> x)
           then Inl TypeError else Inr value)
      | _ \<Rightarrow> Inr value)"

text \<open>
  The tree of the external parser, by node type; \<open>Other t\<close> is a node of any type \<open>t\<close>
  that \<open>luaAstToJson\<close> does not name. Literal nodes carry their \<open>value\<close>,
  \<open>UnaryExpression\<close> its \<open>operator\<close> and \<open>argument\<close>, \<open>Identifier\<close> its \<open>name\<close>, \<open>TableKey\<close>
  and \<open>TableKeyString\<close> their \<open>key\<close> and \<open>value\<close>, \<open>TableValue\<close> its \<open>value\<close>,
  \<open>TableConstructorExpression\<close> its \<open>fields\<close>, \<open>LocalStatement\<close> its \<open>init\<close>,
  \<open>ReturnStatement\<close> its \<open>arguments\<close> and \<open>Chunk\<close> its \<open>body\<close>.
\<close>

datatype ast =
    NilLiteral
  | BooleanLiteral bool
  | NumericLiteral int
  | StringLiteral string
  | UnaryExpression string ast
  | Identifier string
  | TableKey ast ast
  | TableKeyString ast ast
  | TableValue ast
  | TableConstructorExpression "ast list"
  | LocalStatement "ast list"
  | ReturnStatement "ast list"
  | Chunk "ast list"
  | Other string

text \<open>\<open>ast.fields[0] && ast.fields[0].key\<close>: of the parser's nodes only \<open>TableKey\<close> and
  \<open>TableKeyString\<close> have a \<open>key\<close>, and it is a node, hence truthy.\<close>

fun has_key :: "ast \<Rightarrow> bool" where
  "has_key (TableKey k v) = True"
| "has_key (TableKeyString k v) = True"
| "has_key _ = False"

definition first_has_key :: "ast list \<Rightarrow> bool" where
  "first_has_key fs = (case fs of [] \<Rightarrow> False | f # _ \<Rightarrow> has_key f)"

text \<open>The unary minus of JavaScript converts its operand with \<open>ToNumber\<close>. The conversion
  of a string to a number is a parameter \<open>s2n\<close> of the model. An array or an object is
  converted to a primitive first: \<open>valueOf\<close> gives none, so that is its conversion to a
  string.\<close>

definition to_number :: "(string \<Rightarrow> jsnum) \<Rightarrow> jsval \<Rightarrow> error + jsnum" where
  "to_number s2n v =
     (case v of
        JUndefined \<Rightarrow> Inr NaN
      | JNull \<Rightarrow> Inr (Finite 0)
      | JBool b \<Rightarrow> Inr (Finite (if b then 1 else 0))
      | JNum n \<Rightarrow> Inr n
      | JStr s \<Rightarrow> Inr (s2n s)
      | _ \<Rightarrow> (case to_string v of Inl err \<Rightarrow> Inl err | Inr s \<Rightarrow> Inr (s2n s)))"

definition negate :: "jsnum \<Rightarrow> jsnum" where
  "negate x = (case x of NaN \<Rightarrow> NaN | Finite n \<Rightarrow> Finite (- n))"

text \<open>\<open>const { key, value } = luaAstToJson(field); return [key, escape(value)]\<close>\<close>

definition keyed_pair :: "jsval \<Rightarrow> error + (jsval \<times> jsval)" where
  "keyed_pair x =
     bindE (get_prop x ''key'') (\<lambda>k.
     bindE (get_prop x ''value'') (\<lambda>v.
     bindE (escape v) (\<lambda>v'. Inr (k, v'))))"

text \<open>\<open>value.__internal_table_key
  ? { type: 'property', key: value.key, value: escape(value.value) } : escape(value)\<close>\<close>

definition seq_element :: "jsval \<Rightarrow> error + jsval" where
  "seq_element value =
     bindE (get_prop value ''__internal_table_key'') (\<lambda>m.
       if truthy m then
         bindE (get_prop value ''key'') (\<lambda>k.
         bindE (get_prop value ''value'') (\<lambda>v.
         bindE (escape v) (\<lambda>v'.
           Inr (JObj [(''type'', JStr ''property''), (''key'', k), (''value'', v')]))))
       else escape value)"

text \<open>\<open>values.length === 1 ? values[0] : values\<close>\<close>

definition unwrap_single :: "jsval list \<Rightarrow> jsval" where
  "unwrap_single values = (case values of [v] \<Rightarrow> v | _ \<Rightarrow> JArr values)"

fun luaAstToJson :: "(string \<Rightarrow> jsnum) \<Rightarrow> ast \<Rightarrow> error + jsval" where
  "luaAstToJson s2n NilLiteral = Inr JNull"
| "luaAstToJson s2n (BooleanLiteral b) = Inr (JBool b)"
| "luaAstToJson s2n (NumericLiteral n) = Inr (JNum (Finite n))"
| "luaAstToJson s2n (StringLiteral s) = Inr (JStr s)"
| "luaAstToJson s2n (UnaryExpression operator argument) =
     (if operator = ''-''
      then bindE (luaAstToJson s2n argument) (\<lambda>v.
           bindE (to_number s2n v) (\<lambda>n. Inr (JNum (negate n))))
      else Inl (CantParse ''UnaryExpression''))"
| "luaAstToJson s2n (Identifier name) = Inr (JStr name)"
| "luaAstToJson s2n (TableKey k v) =
     bindE (luaAstToJson s2n k) (\<lambda>key.
     bindE (luaAstToJson s2n v) (\<lambda>value.
       Inr (JObj [(''__internal_table_key'', JBool True), (''key'', key), (''value'', value)])))"
| "luaAstToJson s2n (TableKeyString k v) =
     bindE (luaAstToJson s2n k) (\<lambda>key.
     bindE (luaAstToJson s2n v) (\<lambda>value.
       Inr (JObj [(''__internal_table_key'', JBool True), (''key'', key), (''value'', value)])))"
| "luaAstToJson s2n (TableValue v) = luaAstToJson s2n v"
| "luaAstToJson s2n (TableConstructorExpression fs) =
     (if first_has_key fs then
        bindE (sequenceE (map (\<lambda>field. bindE (luaAstToJson s2n field) keyed_pair) fs))
          (\<lambda>pairs.
        bindE (fromPairs pairs) (\<lambda>object.
          Inr (if object = [] then JArr [] else JObj object)))
      else
        bindE (sequenceE (map (luaAstToJson s2n) fs)) (\<lambda>values.
        bindE (sequenceE (map seq_element (filter (\<lambda>v. v \<noteq> JNull) values))) (\<lambda>elements.
          Inr (JArr elements))))"
| "luaAstToJson s2n (LocalStatement init) =
     bindE (sequenceE (map (luaAstToJson s2n) init)) (\<lambda>values. Inr (unwrap_single values))"
| "luaAstToJson s2n (ReturnStatement arguments) =
     bindE (sequenceE (map (luaAstToJson s2n) arguments)) (\<lambda>values. Inr (unwrap_single values))"
| "luaAstToJson s2n (Chunk body) =
     (case body of [] \<Rightarrow> Inl TypeError | statement # _ \<Rightarrow> luaAstToJson s2n statement)"
| "luaAstToJson s2n (Other t) = Inl (CantParse t)"

text \<open>\<open>const parse = value => luaAstToJson(parseLua(value, { comments: false }))\<close>; the
  external parser \<open>parseLua\<close> is a parameter: a function from the text to a tree, or to
  the exception it raises.\<close>

definition parse :: "(string \<Rightarrow> error + ast) \<Rightarrow> (string \<Rightarrow> jsnum) \<Rightarrow> string \<Rightarrow> error + jsval" where
  "parse parseLua s2n text = bindE (parseLua text) (luaAstToJson s2n)"

section \<open>Notions of the specification\<close>

text \<open>These are not translations of the source: they state notions of the
  specification, to be compared with what the source computes, and the predicates in
  which the properties are expressed.\<close>



text \<open>The string-escaping step as the specification words it: ``doubling backslashes'',
  then a backslash followed by \<open>r\<close> to its escaped form, then a backslash followed by \<open>n\<close>
  to its escaped form, then a line feed to a backslash followed by \<open>n\<close>.\<close>

definition double_backslashes :: "string \<Rightarrow> string" where
  "double_backslashes s =
     concat (map (\<lambda>c. if c = backslash then [backslash, backslash] else [c]) s)"

definition spec_escape_string :: "string \<Rightarrow> string" where
  "spec_escape_string s =
     replace_all [newline] [backslash, CHR ''n'']
       (replace_all [backslash, CHR ''n''] [backslash, backslash, CHR ''n'']
         (replace_all [backslash, CHR ''r''] [backslash, backslash, CHR ''r'']
           (double_backslashes s)))"

text \<open>Compact output has ``no inter-element whitespace'': the whitespace characters, a
  value whose Text leaves and keys hold none of them, and the \<open>spaces\<close> options that
  select the compact layout.\<close>

definition is_space :: "char \<Rightarrow> bool" where
  "is_space c = (c = CHR '' '' \<or> c = newline \<or> c = CHR 0x0D \<or> c = CHR 0x09)"

fun no_space_in :: "jsval \<Rightarrow> bool" where
  "no_space_in (JStr s) = list_all (\<lambda>c. \<not> is_space c) s"
| "no_space_in (JArr xs) = list_all no_space_in xs"
| "no_space_in (JObj kvs) = list_all (\<lambda>(k, v). list_all (\<lambda>c. \<not> is_space c) k \<and> no_space_in v) kvs"
| "no_space_in _ = True"

definition compact_spaces :: "jsval \<Rightarrow> bool" where
  "compact_spaces sp = (sp = JNull \<or> sp = JNum (Finite 0) \<or> sp = JNum NaN \<or> sp = JStr [])"










section \<open>Properties\<close>


subsection \<open>Results of a loop\<close>

lemma sequenceE_map_Inr: "sequenceE (map Inr xs) = Inr xs"
  by (induction xs) auto

lemma sequenceE_Inr_D: "sequenceE rs = Inr xs \<Longrightarrow> rs = map Inr xs"
proof (induction rs arbitrary: xs)
  case Nil
  then show ?case by auto
next
  case (Cons r rs)
  then show ?case by (cases r) (auto split: sum.splits)
qed

lemma sequenceE_Inr: "sequenceE rs = Inr xs \<longleftrightarrow> rs = map Inr xs"
  using sequenceE_map_Inr sequenceE_Inr_D by metis




subsection \<open>Strings rendered by the serializer\<close>

lemma replace_all_char:
  "replace_all [q] rep s = concat (map (\<lambda>c. if c = q then rep else [c]) s)"
  by (induction s) auto

lemma formatLuaString_char:
  "formatLuaString s sq =
     (let q = (if sq then squote else dquote)
      in [q] @ concat (map (\<lambda>c. if c = q then [backslash, q] else [c]) s) @ [q])"
  by (simp add: formatLuaString_def replace_all_char Let_def)





subsection \<open>Keys of a Mapping\<close>



lemma join_empty: "join [] xs = concat xs"
  by (induction "[] :: string" xs rule: join.induct) simp_all


lemma map_zip_map2: "map (\<lambda>(k, r). f k r) (zip ks rs) = map2 f ks rs"
  by simp



subsection \<open>The string-escaping step\<close>

lemma backslash_pairs_run:
  assumes "rest = [] \<or> hd rest \<noteq> b"
  shows "replace_all [b, b] [b, b, b, b] (replicate n b @ rest)
           = replicate (n + 2 * (n div 2)) b @ replace_all [b, b] [b, b, b, b] rest"
proof (induction n rule: less_induct)
  case (less n)
  show ?case
  proof (cases n)
    case 0
    then show ?thesis by simp
  next
    case (Suc m)
    show ?thesis
    proof (cases m)
      case 0
      with Suc assms show ?thesis by (cases rest) auto
    next
      case (Suc k)
      have "k < n" using \<open>n = Suc m\<close> Suc by simp
      from less.IH [OF this] show ?thesis
        using \<open>n = Suc m\<close> Suc by simp
    qed
  qed
qed

text \<open>
  Claim C5, as stated, fails. The first step does not double backslashes: a single
  backslash comes back single, where the specification's wording gives two. And a value
  that is not a string does not always pass through: an object with a truthy \<open>replace\<close>
  property raises a \<open>TypeError\<close>.
\<close>

theorem escape_counterexample:
  "escape (JStr [backslash]) = Inr (JStr [backslash])
   \<and> spec_escape_string [backslash] = [backslash, backslash]
   \<and> escape (JObj [(''replace'', JBool True)]) = Inl TypeError"
  by (simp add: escape_def escape_string_def spec_escape_string_def double_backslashes_def
      truthy_def backslash_def newline_def)

text \<open>
  Claim C5, amended. On a string the step is, in order: each pair of consecutive
  backslashes, found from left to right without overlap, becomes four backslashes (so
  a run of \<open>n\<close> backslashes becomes \<open>n + 2 * (n div 2)\<close> of them, and a lone backslash
  stays single); then a backslash followed by \<open>r\<close> gets a second backslash in front; then
  a backslash followed by \<open>n\<close> gets a second backslash in front; then each line feed
  becomes a backslash followed by \<open>n\<close>. A value that is not a string, and is not an
  object with a truthy \<open>replace\<close> property, passes through unchanged.
\<close>

theorem escape_steps:
  "escape (JStr s) =
     Inr (JStr (replace_all [newline] [backslash, CHR ''n'']
                 (replace_all [backslash, CHR ''n''] [backslash, backslash, CHR ''n'']
                   (replace_all [backslash, CHR ''r''] [backslash, backslash, CHR ''r'']
                     (replace_all [backslash, backslash]
                        [backslash, backslash, backslash, backslash] s)))))
   \<and> replace_all [backslash, backslash] [backslash, backslash, backslash, backslash]
         (replicate n backslash) = replicate (n + 2 * (n div 2)) backslash
   \<and> (\<not> isString v \<and> (\<forall>kvs. v = JObj kvs \<longrightarrow> \<not> truthy (case map_of kvs ''replace'' of None \<Rightarrow> JUndefined | Some x \<Rightarrow> x))
        \<longrightarrow> escape v = Inr v)"
proof (intro conjI impI)
  show "escape (JStr s) =
     Inr (JStr (replace_all [newline] [backslash, CHR ''n'']
                 (replace_all [backslash, CHR ''n''] [backslash, backslash, CHR ''n'']
                   (replace_all [backslash, CHR ''r''] [backslash, backslash, CHR ''r'']
                     (replace_all [backslash, backslash]
                        [backslash, backslash, backslash, backslash] s)))))"
    by (simp add: escape_def escape_string_def)
next
  show "replace_all [backslash, backslash] [backslash, backslash, backslash, backslash]
         (replicate n backslash) = replicate (n + 2 * (n div 2)) backslash"
    using backslash_pairs_run [of "[]" backslash n] by simp
next
  assume "\<not> isString v \<and> (\<forall>kvs. v = JObj kvs \<longrightarrow> \<not> truthy (case map_of kvs ''replace'' of None \<Rightarrow> JUndefined | Some x \<Rightarrow> x))"
  then show "escape v = Inr v"
    by (cases v) (auto simp: escape_def isString_def)
qed

theorem escape_steps_witness:
  "escape (JStr [backslash, backslash, backslash, CHR ''n'', newline, backslash, CHR ''r''])
     = Inr (JStr [backslash, backslash, backslash, backslash, backslash, backslash, CHR ''n'',
                  backslash, CHR ''n'', backslash, backslash, CHR ''r''])
   \<and> replace_all [backslash, backslash] [backslash, backslash, backslash, backslash]
         [backslash, backslash, backslash] = [backslash, backslash, backslash, backslash, backslash]
   \<and> escape (JObj [(''a'', JNum (Finite 1))]) = Inr (JObj [(''a'', JNum (Finite 1))])"
  using escape_steps [of "[backslash, backslash, backslash, CHR ''n'', newline, backslash, CHR ''r'']"
                         3 "JObj [(''a'', JNum (Finite 1))]"]
  by (simp add: isString_def truthy_def backslash_def newline_def numeral_3_eq_3)



subsection \<open>Compact and indented layout\<close>

lemma is_digit_digit_char: "d < 10 \<Longrightarrow> is_digit (digit_char d)"
  by (simp add: is_digit_def in_range_def digit_char_def of_char_of)

lemma is_digit_not_space: "is_digit c \<Longrightarrow> \<not> is_space c"
  by (auto simp: is_digit_def in_range_def is_space_def newline_def)

lemma digits_all_digit: "list_all is_digit (digits n)"
proof (induction n rule: digits.induct)
  case (1 n)
  show ?case
  proof (cases "n < 10")
    case True
    then show ?thesis by (subst digits.simps) (simp add: is_digit_digit_char)
  next
    case False
    with 1 show ?thesis
      by (subst digits.simps) (simp add: is_digit_digit_char)
  qed
qed

lemma digits_nonempty: "digits n \<noteq> []"
  by (subst digits.simps) simp

lemma num_toString_no_space:
  assumes "num_toString x = Inr t"
  shows "list_all (\<lambda>c. \<not> is_space c) t"
proof -
  have d: "list_all (\<lambda>c. \<not> is_space c) (digits n)" for n
    using digits_all_digit [of n] by (auto simp: list_all_iff is_digit_not_space)
  have m: "\<not> is_space CHR ''-''" "list_all (\<lambda>c. \<not> is_space c) ''NaN''"
    by (simp_all add: is_space_def newline_def)
  show ?thesis
    using d m assms by (cases x) (auto simp: num_toString_def split: if_splits)
qed

lemma num_toString_head:
  assumes "num_toString x = Inr t"
  shows "t \<noteq> [] \<and> \<not> is_space (hd t)"
proof -
  from assms have "t \<noteq> []"
    by (cases x) (auto simp: num_toString_def digits_nonempty split: if_splits)
  with num_toString_no_space [OF assms] show ?thesis
    by (cases t) simp_all
qed

lemma formatLuaString_no_space:
  "list_all (\<lambda>c. \<not> is_space c) s \<Longrightarrow> list_all (\<lambda>c. \<not> is_space c) (formatLuaString s sq)"
  by (auto simp: formatLuaString_char Let_def list_all_iff is_space_def squote_def dquote_def
      backslash_def newline_def split: if_splits)

lemma formatLuaKey_no_space:
  "list_all (\<lambda>c. \<not> is_space c) k \<Longrightarrow> list_all (\<lambda>c. \<not> is_space c) (formatLuaKey k sq)"
  using formatLuaString_no_space [of k sq]
  by (auto simp: formatLuaKey_def is_space_def newline_def)

lemma rec_head: "rec opts v i = Inr t \<Longrightarrow> t \<noteq> [] \<and> \<not> is_space (hd t)"
proof (cases v)
  case (JNum n)
  assume "rec opts v i = Inr t"
  with JNum show ?thesis using num_toString_head [of n t] by auto
next
  case (JStr s)
  assume "rec opts v i = Inr t"
  with JStr show ?thesis
    by (auto simp: formatLuaString_def is_space_def squote_def dquote_def newline_def split: if_splits)
next
  case (JArr xs)
  assume "rec opts v i = Inr t"
  with JArr show ?thesis
    by (auto simp: is_space_def newline_def split: if_splits sum.splits)
next
  case (JObj kvs)
  assume "rec opts v i = Inr t"
  with JObj show ?thesis
    by (auto simp: is_space_def newline_def split: if_splits sum.splits option.splits)
qed (auto simp: is_space_def newline_def split: if_splits)

lemma map_Inr_elem:
  assumes "map f xs = map Inr rs" and "r \<in> set rs"
  shows "\<exists>x \<in> set xs. f x = Inr r"
proof -
  from assms(2) obtain j where j: "j < length rs" "rs ! j = r"
    by (auto simp: in_set_conv_nth)
  from assms(1) have len: "length xs = length rs"
    by (metis length_map)
  from assms(1) have "map f xs ! j = map Inr rs ! j" by simp
  with j len have "f (xs ! j) = Inr r" by simp
  moreover have "xs ! j \<in> set xs" using j len by simp
  ultimately show ?thesis by blast
qed

lemma map_Inr_zip_elem:
  assumes "map f xs = map Inr rs" and "(a, r) \<in> set (zip (map g xs) rs)"
  shows "\<exists>x \<in> set xs. g x = a \<and> f x = Inr r"
proof -
  from assms(1) have len: "length xs = length rs"
    by (metis length_map)
  from assms(2) obtain j where j: "j < length rs" "map g xs ! j = a" "rs ! j = r"
    using len by (auto simp: set_zip)
  from assms(1) have "map f xs ! j = map Inr rs ! j" by simp
  with j len have "f (xs ! j) = Inr r" by simp
  moreover have "xs ! j \<in> set xs" "g (xs ! j) = a" using j len by simp_all
  ultimately show ?thesis by blast
qed

lemma rec_compact_no_space:
  "\<not> truthy (spaces opts) \<Longrightarrow> no_space_in v \<Longrightarrow> rec opts v i = Inr t
     \<Longrightarrow> list_all (\<lambda>c. \<not> is_space c) t"
proof (induction opts v i arbitrary: t rule: rec.induct)
  case (3 opts n i)
  then show ?case using num_toString_no_space [of n t] by simp
next
  case (4 opts s i)
  then show ?case using formatLuaString_no_space by auto
next
  case (5 opts xs i)
  show ?case
  proof (cases "xs = []")
    case True
    with 5 show ?thesis by (auto simp: is_space_def newline_def)
  next
    case False
    with 5(3,5) obtain rs where rs: "map (\<lambda>e. rec opts e (i + 1)) xs = map Inr rs"
      and t: "t = ''{'' @ concat (map (\<lambda>r. r @ '','') rs) @ ''}''"
      by (auto simp: sequenceE_Inr join_empty split: sum.splits)
    have "list_all (\<lambda>c. \<not> is_space c) r" if "r \<in> set rs" for r
    proof -
      from map_Inr_elem [OF rs that] obtain x where x: "x \<in> set xs" "rec opts x (i + 1) = Inr r"
        by blast
      from 5(4) x(1) have "no_space_in x" by (simp add: list_all_iff)
      from 5(2) [OF False 5(3) x(1) 5(3) this x(2)] show ?thesis .
    qed
    then show ?thesis
      by (auto simp: t list_all_iff is_space_def newline_def)
  qed
next
  case (6 opts kvs i)
  show ?case
  proof (cases "kvs = []")
    case True
    with 6 show ?thesis by (auto simp: is_space_def newline_def)
  next
    case False
    with 6(3,5) obtain rs where rs: "map (\<lambda>(k, v). rec opts v (i + 1)) kvs = map Inr rs"
      and t: "t = ''{'' @ concat (map (\<lambda>(k, r). formatLuaKey k (truthy (singleQuote opts))
                                        @ ''='' @ r @ '','') (zip (map fst kvs) rs)) @ ''}''"
      by (auto simp: sequenceE_Inr join_empty split: sum.splits)
    have sp: "\<not> is_space CHR ''{''" "\<not> is_space CHR ''}''" "\<not> is_space CHR ''=''"
      "\<not> is_space CHR '',''"
      by (simp_all add: is_space_def newline_def)
    have "(\<forall>c \<in> set (formatLuaKey k (truthy (singleQuote opts))). \<not> is_space c)
          \<and> (\<forall>c \<in> set r. \<not> is_space c)"
      if "(k, r) \<in> set (zip (map fst kvs) rs)" for k r
    proof -
      from map_Inr_zip_elem [OF rs that] obtain x where x: "x \<in> set kvs" "fst x = k"
        "(case x of (k, v) \<Rightarrow> rec opts v (i + 1)) = Inr r"
        by blast
      obtain k' v where kv: "x = (k', v)" by (cases x)
      with x have r: "rec opts v (i + 1) = Inr r" and k: "k' = k" by simp_all
      from 6(4) x(1) kv k have ns: "list_all (\<lambda>c. \<not> is_space c) k" "no_space_in v"
        by (auto simp: list_all_iff)
      from 6(2) [OF False 6(3) x(1) kv [symmetric] 6(3) ns(2) r] formatLuaKey_no_space [OF ns(1)]
      show ?thesis by (simp add: list_all_iff)
    qed
    then show ?thesis
      using sp by (fastforce simp: t list_all_iff)
  qed
qed (auto simp: is_space_def newline_def split: if_splits)

lemma rec_compact_eol:
  "\<not> truthy (spaces opts) \<Longrightarrow> rec (opts\<lparr>eol := e\<rparr>) v i = rec opts v i"
proof (induction opts v i rule: rec.induct)
  case (5 opts xs i)
  then have eq: "map (\<lambda>x. rec (opts\<lparr>eol := e\<rparr>) x (Suc i)) xs = map (\<lambda>x. rec opts x (Suc i)) xs"
    by (cases "xs = []") auto
  from 5(3) show ?case by (simp add: eq)
next
  case (6 opts kvs i)
  then have eq: "map (\<lambda>(k, v). rec (opts\<lparr>eol := e\<rparr>) v (Suc i)) kvs
               = map (\<lambda>(k, v). rec opts v (Suc i)) kvs"
    by (cases "kvs = []") auto
  from 6(3) show ?case by (simp add: eq split: sum.splits)
qed simp_all

lemma normalize_spaces_truthy:
  "truthy (spaces (normalize opts)) = (\<not> compact_spaces (spaces opts))"
  by (cases "spaces opts")
     (auto simp: normalize_def compact_spaces_def truthy_def isNull_def isNumber_def isString_def
           split: jsnum.splits)

text \<open>
  Claim C6, as stated, fails for the falsy option \<open>false\<close>: the options are normalized
  first, and a \<open>spaces\<close> that is not \<open>null\<close>, a number or a string is replaced by the
  default \<open>2\<close>, so the output is indented and \<open>return\<close> is followed by a space.
\<close>

theorem compact_counterexample:
  "\<not> truthy (JBool False)
   \<and> formatted (JArr [JNum (Finite 1)])
       (Some \<lparr> eol = JUndefined, singleQuote = JUndefined, spaces = JBool False \<rparr>)
     = Inr (''return {'' @ [newline] @ ''  1,'' @ [newline] @ ''}'')"
  by code_simp

lemma normalize_eol_update:
  "normalize (opts\<lparr>eol := e\<rparr>)
     = (normalize opts)\<lparr>eol := (if isString e then e else JStr [newline])\<rparr>"
  by (simp add: normalize_def)

text \<open>
  Claim C6, amended. Whenever \<open>format\<close> returns a text, that text is \<open>return\<close>, then one
  space exactly when the layout is not compact, then the rendered value, which does
  not begin with a whitespace character. The layout is compact exactly for the
  \<open>spaces\<close> options \<open>null\<close>, \<open>0\<close>, \<open>NaN\<close> and the empty string (not for \<open>false\<close> or an
  absent option). Compact output has no whitespace between elements: if no Text leaf
  and no key of the value holds a whitespace character, the text holds none; and it is
  a single line: the text is the same whatever the \<open>eol\<close> option.
\<close>

theorem compact_output:
  assumes "formatted value (Some opts) = Inr t"
  shows "\<exists>body. rec (normalize opts) value 0 = Inr body \<and> body \<noteq> [] \<and> \<not> is_space (hd body)
           \<and> t = ''return'' @ (if compact_spaces (spaces opts) then [] else '' '') @ body
           \<and> (compact_spaces (spaces opts) \<and> no_space_in value
                \<longrightarrow> list_all (\<lambda>c. \<not> is_space c) t)
           \<and> (compact_spaces (spaces opts)
                \<longrightarrow> formatted value (Some (opts\<lparr>eol := e\<rparr>)) = Inr t)"
proof -
  from assms obtain body where body: "rec (normalize opts) value 0 = Inr body"
    and t: "t = ''return'' @ (if compact_spaces (spaces opts) then [] else '' '') @ body"
    by (auto simp: formatted_def render_def normalize_spaces_truthy split: sum.splits)
  have hd: "body \<noteq> [] \<and> \<not> is_space (hd body)"
    using rec_head [OF body] .
  have ns: "list_all (\<lambda>c. \<not> is_space c) t"
    if c: "compact_spaces (spaces opts)" and v: "no_space_in value"
  proof -
    from c have "\<not> truthy (spaces (normalize opts))"
      by (simp add: normalize_spaces_truthy)
    from rec_compact_no_space [OF this v body] c show ?thesis
      by (simp add: t is_space_def newline_def)
  qed
  have eol: "formatted value (Some (opts\<lparr>eol := e\<rparr>)) = Inr t"
    if c: "compact_spaces (spaces opts)"
  proof -
    from c have f: "\<not> truthy (spaces (normalize opts))"
      by (simp add: normalize_spaces_truthy)
    show ?thesis
      using f c body
      by (simp add: formatted_def render_def normalize_eol_update rec_compact_eol t)
  qed
  from body hd t ns eol show ?thesis by blast
qed

theorem compact_output_witness:
  "formatted (JArr [JNum (Finite 1), JObj [(''a'', JStr ''x''), (''b c'', JNull)]])
     (Some \<lparr> eol = JStr ''XY'', singleQuote = JUndefined, spaces = JStr [] \<rparr>)
     = Inr (''return{1,{a='' @ [squote] @ ''x'' @ [squote] @ '',['' @ [squote] @ ''b c''
            @ [squote] @ '']=nil,},}'')
   \<and> formatted (JArr [JNum (Finite 1)])
       (Some \<lparr> eol = JStr ''XY'', singleQuote = JUndefined, spaces = JNum (Finite 0) \<rparr>)
     = formatted (JArr [JNum (Finite 1)])
         (Some \<lparr> eol = JUndefined, singleQuote = JUndefined, spaces = JNum (Finite 0) \<rparr>)
   \<and> list_all (\<lambda>c. \<not> is_space c) ''return{1,}''"
proof -
  let ?o1 = "\<lparr> eol = JStr ''XY'', singleQuote = JUndefined, spaces = JStr [] \<rparr>"
  let ?o2 = "\<lparr> eol = JStr ''XY'', singleQuote = JUndefined, spaces = JNum (Finite 0) \<rparr>"
  have f1: "formatted (JArr [JNum (Finite 1), JObj [(''a'', JStr ''x''), (''b c'', JNull)]]) (Some ?o1)
     = Inr (''return{1,{a='' @ [squote] @ ''x'' @ [squote] @ '',['' @ [squote] @ ''b c''
            @ [squote] @ '']=nil,},}'')"
    by code_simp
  have f2: "formatted (JArr [JNum (Finite 1)]) (Some ?o2) = Inr ''return{1,}''"
    by code_simp
  have c: "compact_spaces (spaces ?o2)" "no_space_in (JArr [JNum (Finite 1)])"
    by (simp_all add: compact_spaces_def)
  from compact_output [OF f2, of JUndefined] c f1 f2 show ?thesis
    by auto
qed


subsection \<open>Property entries\<close>

text \<open>In the indented layout an object whose \<open>type\<close> is \<open>'property'\<close> is rendered as a
  bracket-key assignment without braces of its own: the key between single quotes when
  it is a string, in its textual form otherwise.\<close>

lemma property_key_text:
  "map_of kvs ''key'' = Some (JStr s) \<Longrightarrow> property_key kvs = Inr ([squote] @ s @ [squote])"
  "map_of kvs ''key'' = Some (JNum n) \<Longrightarrow> property_key kvs = num_toString n"
  by (simp_all add: property_key_def)

lemma property_entry_indented:
  assumes "truthy (spaces opts)"
      and "map_of kvs ''type'' = Some (JStr ''property'')"
      and "indent (spaces opts) (i + 1) = Inr sp"
      and "indent (spaces opts) i = Inr spEnd"
      and "sequenceE (map (\<lambda>(k, v). rec opts v (i + 1)) kvs) = Inr rs"
      and "property_key kvs = Inr key"
      and "map_of (zip (map fst kvs) rs) ''value'' = Some r"
  shows "rec opts (JObj kvs) i = Inr (''['' @ key @ ''] = '' @ r)"
proof -
  from assms(2) have "kvs \<noteq> []" by auto
  with assms show ?thesis by simp
qed

text \<open>
  Claim C3 says that this rendering holds for every options object, the compact layout
  included. The compact branch of \<open>rec\<close> has no test of \<open>value.type\<close>: there the entry
  \<open>{type: 'property', key: 5, value: 'v'}\<close> is rendered as an ordinary table of three
  fields, within braces, while the indented branch renders \<open>[5] = 'v'\<close>.
\<close>

theorem property_entry_compact_divergence:
  "formatted (JObj [(''type'', JStr ''property''), (''key'', JNum (Finite 5)), (''value'', JStr ''v'')])
     (Some \<lparr> eol = JUndefined, singleQuote = JUndefined, spaces = JNum (Finite 0) \<rparr>)
     = Inr (''return{type='' @ [squote] @ ''property'' @ [squote] @ '',key=5,value=''
            @ [squote] @ ''v'' @ [squote] @ '',}'')
   \<and> formatted (JObj [(''type'', JStr ''property''), (''key'', JNum (Finite 5)), (''value'', JStr ''v'')])
     (Some \<lparr> eol = JUndefined, singleQuote = JUndefined, spaces = JNum (Finite 2) \<rparr>)
     = Inr (''return [5] = '' @ [squote] @ ''v'' @ [squote])"
  by code_simp


subsection \<open>Objects built by \<open>fromPairs\<close>\<close>
















subsection \<open>Table constructors\<close>















subsection \<open>Failure\<close>
































subsection \<open>The effect of \<open>format\<close> on the heap\<close>









text \<open>
  The text that \<open>format\<close> returns on the heap is the one that \<open>formatted\<close> gives for the
  tree of the value, in the two ordinary cases: no options argument, and an options
  object on which the three assignments take effect and whose three fields hold
  values that do not contain the options object itself.
\<close>

lemma format_no_options:
  "format h value HUndefined
     = (bindE (unfold h [] value) (\<lambda>tree. formatted tree (None :: options option)), h)"
  by (simp add: format_def options_object_def store_def assigned_def Let_def h_get_def
      h_assign_def norm_eol_def norm_singleQuote_def norm_spaces_def bindE_def formatted_def
      normalize_def fresh_options_def isString_def isBoolean_def isNull_def isNumber_def)








end
